theory Spec2Isabelle
  imports Complex_Main "HOL-Library.Char_ord" "HOL-Library.List_Lexorder" "HOL-Library.Multiset"
begin

section \<open>Data model of the wallet ledger\<close>

text \<open>
  The relational store is a record of its tables. Tables that are only read or appended
  (\<open>accounts\<close>, \<open>transactions\<close>, \<open>ledger_entries\<close>) are lists of rows in insertion order;
  tables that are read and written through their primary key only (\<open>account_balances\<close>,
  \<open>idempotency_keys\<close>) are maps from the key to the row. References are strings, and so
  are UUIDs, in their canonical lower-case form: there equality of strings is equality of
  UUIDs, and the order of strings is the order of \<open>ORDER BY a.id\<close>.

  \<open>NUMERIC(20, 8)\<close> columns and JavaScript numbers are both modelled by exact rationals:
  \<open>parseFloat\<close> is the identity and \<open>+\<close>, \<open>-\<close> are exact. The binary64 rounding of
  JavaScript arithmetic and the rounding of a value to eight decimals when it is stored are
  outside this model.

  The \<open>id\<close> and \<open>created_at\<close> columns of \<open>ledger_entries\<close> are filled by column
  defaults and never read by the service; they are left out of the row.
\<close>

type_synonym uuid = string
type_synonym numeric = rat
type_synonym timestamp = nat

datatype account_type = SYSTEM | USER

datatype transaction_type = TOP_UP | BONUS | SPEND

record account_row =
  acc_id :: uuid
  acc_external_id :: "string option"
  acc_account_type :: account_type
  acc_name :: string
  acc_asset_type_id :: uuid
  acc_is_active :: bool

record balance_row =
  ab_asset_type_id :: uuid
  ab_balance :: numeric
  ab_version :: nat
  ab_updated_at :: timestamp

record transaction_row =
  t_id :: uuid
  t_type :: transaction_type
  t_reference_id :: string
  t_description :: string
  t_metadata :: string
  t_created_at :: timestamp

record ledger_row =
  le_transaction_id :: uuid
  le_account_id :: uuid
  le_asset_type_id :: uuid
  le_amount :: numeric
  le_balance_after :: numeric

text \<open>The response object of a mutating flow; \<open>idempotent\<close> absent in JavaScript is \<open>False\<close>.\<close>

record response =
  r_transactionId :: uuid
  r_referenceId :: string
  r_type :: transaction_type
  r_accountId :: uuid
  r_amount :: numeric
  r_balanceAfter :: numeric
  r_description :: string
  r_createdAt :: timestamp
  r_idempotent :: bool

record idempotency_row =
  ik_response_status :: nat
  ik_response_body :: response
  ik_created_at :: timestamp
  ik_expires_at :: timestamp

text \<open>
  The store as one session sees it: the tables, the value of \<open>NOW()\<close>, and the balance
  rows the open transaction has locked \<open>FOR UPDATE\<close> so far, in the order of their
  acquisition.
\<close>

record store =
  accounts :: "account_row list"
  account_balances :: "uuid \<rightharpoonup> balance_row"
  transactions :: "transaction_row list"
  ledger_entries :: "ledger_row list"
  idempotency_keys :: "string \<rightharpoonup> idempotency_row"
  now :: timestamp
  locks :: "uuid list"

text \<open>
  A row of \<open>accounts a JOIN account_balances ab\<close> as the service receives it:
  \<open>a.*, ab.balance, ab.version\<close>. The unlocked lookup by external id selects no version.
\<close>

record account =
  a_id :: uuid
  a_external_id :: "string option"
  a_account_type :: account_type
  a_name :: string
  a_asset_type_id :: uuid
  a_is_active :: bool
  a_balance :: numeric
  a_version :: "nat option"

text \<open>A thrown JavaScript error: its \<open>code\<close> and \<open>statusCode\<close> properties, when set.\<close>

record js_error =
  code :: "string option"
  statusCode :: "nat option"

definition parseFloat :: "numeric \<Rightarrow> rat" where
  "parseFloat s = s"

section \<open>Posting engine\<close>

definition insert_ledger_entry :: "store \<Rightarrow> ledger_row \<Rightarrow> store" where
  "insert_ledger_entry c row = c\<lparr>ledger_entries := ledger_entries c @ [row]\<rparr>"

text \<open>
  \<open>UPDATE account_balances SET balance = $2, version = version + 1, updated_at = NOW()
  WHERE account_id = $1\<close>: no row with that key, no change.
\<close>

definition update_balance :: "store \<Rightarrow> uuid \<Rightarrow> numeric \<Rightarrow> store" where
  "update_balance c i b =
     (case account_balances c i of
        None \<Rightarrow> c
      | Some row \<Rightarrow>
          c\<lparr>account_balances := (account_balances c)(i \<mapsto>
               row\<lparr>ab_balance := b, ab_version := ab_version row + 1, ab_updated_at := now c\<rparr>)\<rparr>)"

definition insufficient_balance :: js_error where
  "insufficient_balance = \<lparr>code = Some ''INSUFFICIENT_BALANCE'', statusCode = Some 422\<rparr>"

definition postDoubleEntry ::
  "store \<Rightarrow> uuid \<Rightarrow> account \<Rightarrow> account \<Rightarrow> rat \<Rightarrow> uuid \<Rightarrow> (js_error + rat \<times> rat) \<times> store" where
  "postDoubleEntry c transactionId debitAccount creditAccount amt assetTypeId =
     (let debitNewBalance = parseFloat (a_balance debitAccount) - amt;
          creditNewBalance = parseFloat (a_balance creditAccount) + amt
      in if a_account_type debitAccount = USER \<and> debitNewBalance < 0
         then (Inl insufficient_balance, c)
         else
           let c1 = insert_ledger_entry c
                     \<lparr>le_transaction_id = transactionId, le_account_id = a_id debitAccount,
                      le_asset_type_id = assetTypeId, le_amount = amt,
                      le_balance_after = debitNewBalance\<rparr>;
               c2 = insert_ledger_entry c1
                     \<lparr>le_transaction_id = transactionId, le_account_id = a_id creditAccount,
                      le_asset_type_id = assetTypeId, le_amount = - amt,
                      le_balance_after = creditNewBalance\<rparr>;
               c3 = update_balance c2 (a_id debitAccount) debitNewBalance;
               c4 = update_balance c3 (a_id creditAccount) creditNewBalance
           in (Inr (debitNewBalance, creditNewBalance), c4))"

section \<open>Account resolver\<close>

text \<open>
  \<open>SELECT a.*, ab.balance [, ab.version] FROM accounts a JOIN account_balances ab
  ON ab.account_id = a.id WHERE ...\<close>: the rows of \<open>accounts\<close> that satisfy the
  condition and have a balance row, in table order.
\<close>

definition join_balance :: "bool \<Rightarrow> account_row \<Rightarrow> balance_row \<Rightarrow> account" where
  "join_balance with_version a ab =
     \<lparr>a_id = acc_id a, a_external_id = acc_external_id a,
      a_account_type = acc_account_type a, a_name = acc_name a,
      a_asset_type_id = acc_asset_type_id a, a_is_active = acc_is_active a,
      a_balance = ab_balance ab,
      a_version = (if with_version then Some (ab_version ab) else None)\<rparr>"

definition select_accounts :: "store \<Rightarrow> bool \<Rightarrow> (account_row \<Rightarrow> bool) \<Rightarrow> account list" where
  "select_accounts c with_version cond =
     List.map_filter
       (\<lambda>a. if cond a then map_option (join_balance with_version a) (account_balances c (acc_id a))
            else None)
       (accounts c)"

definition first_row :: "'a list \<Rightarrow> 'a option" where
  "first_row rows = (case rows of [] \<Rightarrow> None | r # _ \<Rightarrow> Some r)"

definition getAccountByExternalId :: "store \<Rightarrow> string \<Rightarrow> account option" where
  "getAccountByExternalId c externalId =
     first_row (select_accounts c False
       (\<lambda>a. acc_external_id a = Some externalId \<and> acc_is_active a))"

text \<open>\<open>[...new Set(accountIds)]\<close> keeps the first occurrence of each id.\<close>

definition new_Set :: "'a list \<Rightarrow> 'a list" where
  "new_Set xs = rev (remdups (rev xs))"

definition getAccountsWithLock :: "store \<Rightarrow> uuid list \<Rightarrow> account list \<times> store" where
  "getAccountsWithLock c accountIds =
     (let sortedIds = sort (new_Set accountIds);
          rows = sort_key a_id
                   (select_accounts c True (\<lambda>a. acc_id a \<in> set sortedIds \<and> acc_is_active a))
      in (rows, c\<lparr>locks := locks c @ map a_id rows\<rparr>))"

section \<open>Idempotency store\<close>

definition checkIdempotency :: "store \<Rightarrow> string \<Rightarrow> idempotency_row option" where
  "checkIdempotency c ref =
     (case idempotency_keys c ref of
        None \<Rightarrow> None
      | Some row \<Rightarrow> if now c < ik_expires_at row then Some row else None)"

text \<open>
  \<open>INSERT ... ON CONFLICT (key) DO NOTHING\<close>; \<open>expires_at\<close> defaults to
  \<open>NOW() + INTERVAL '24 hours'\<close>. Time is counted in milliseconds. The body goes to a JSONB
  column and comes back parsed; that round trip is taken to be the identity.
\<close>

definition storeIdempotencyResult :: "store \<Rightarrow> string \<Rightarrow> nat \<Rightarrow> response \<Rightarrow> store" where
  "storeIdempotencyResult c ref status body =
     (case idempotency_keys c ref of
        Some _ \<Rightarrow> c
      | None \<Rightarrow>
          c\<lparr>idempotency_keys := (idempotency_keys c)(ref \<mapsto>
               \<lparr>ik_response_status = status, ik_response_body = body,
                ik_created_at = now c, ik_expires_at = now c + 86400000\<rparr>)\<rparr>)"

section \<open>Flow handlers\<close>

text \<open>
  The argument of a flow, and what one execution of its body draws from outside the store:
  the identifier made by \<open>uuidv4()\<close> and the clock read by \<open>new Date()\<close>.
\<close>

record request =
  q_accountId :: uuid
  q_amount :: rat
  q_referenceId :: string
  q_description :: "string option"
  q_metadata :: "string option"

record env =
  uuidv4 :: uuid
  new_Date :: timestamp

definition not_configured :: js_error where
  "not_configured = \<lparr>code = None, statusCode = Some 500\<rparr>"

definition account_not_found :: js_error where
  "account_not_found = \<lparr>code = Some ''ACCOUNT_NOT_FOUND'', statusCode = Some 404\<rparr>"

definition asset_type_mismatch :: js_error where
  "asset_type_mismatch = \<lparr>code = None, statusCode = Some 400\<rparr>"

definition unique_violation :: js_error where
  "unique_violation = \<lparr>code = Some ''23505'', statusCode = None\<rparr>"

text \<open>\<open>description || fallback\<close>: an absent or empty description gives the fallback.\<close>

definition or_default :: "string option \<Rightarrow> string \<Rightarrow> string" where
  "or_default v fallback =
     (case v of None \<Rightarrow> fallback | Some s \<Rightarrow> if s = [] then fallback else s)"

text \<open>
  \<open>JSON.stringify(metadata || {})\<close>: the metadata object is carried as its JSON text; an
  object is never falsy, so only an absent one gives the empty object.
\<close>

definition stringify_metadata :: "string option \<Rightarrow> string" where
  "stringify_metadata v = (case v of None \<Rightarrow> ''{}'' | Some json \<Rightarrow> json)"

text \<open>
  \<open>INSERT INTO transactions (id, type, reference_id, description, metadata)\<close>: the primary
  key and the unique constraint on \<open>reference_id\<close> reject a duplicate with SQLSTATE 23505;
  \<open>created_at\<close> defaults to \<open>NOW()\<close>.
\<close>

definition insert_transaction ::
  "store \<Rightarrow> uuid \<Rightarrow> transaction_type \<Rightarrow> string \<Rightarrow> string \<Rightarrow> string \<Rightarrow> js_error + store" where
  "insert_transaction c txId ty ref descr meta =
     (if txId \<in> set (map t_id (transactions c)) \<or> ref \<in> set (map t_reference_id (transactions c))
      then Inl unique_violation
      else Inr (c\<lparr>transactions := transactions c @
                   [\<lparr>t_id = txId, t_type = ty, t_reference_id = ref, t_description = descr,
                     t_metadata = meta, t_created_at = now c\<rparr>]\<rparr>))"

definition topUpWallet_body :: "env \<Rightarrow> request \<Rightarrow> store \<Rightarrow> (js_error + response) \<times> store" where
  "topUpWallet_body e req c =
     (case checkIdempotency c (q_referenceId req) of
        Some cached \<Rightarrow> (Inr ((ik_response_body cached)\<lparr>r_idempotent := True\<rparr>), c)
      | None \<Rightarrow>
     (case getAccountByExternalId c ''SYSTEM_TREASURY_GOLD'' of
        None \<Rightarrow> (Inl not_configured, c)
      | Some treasury \<Rightarrow>
     (case getAccountsWithLock c [q_accountId req, a_id treasury] of (accs, c1) \<Rightarrow>
     (case find (\<lambda>a. a_id a = q_accountId req) accs of
        None \<Rightarrow> (Inl account_not_found, c1)
      | Some userAccount \<Rightarrow>
     (if a_asset_type_id userAccount \<noteq> a_asset_type_id treasury
      then (Inl asset_type_mismatch, c1)
      else
     (let treasuryLocked = find (\<lambda>a. a_id a = a_id treasury) accs;
          txId = uuidv4 e
      in
     (case insert_transaction c1 txId TOP_UP (q_referenceId req)
             (or_default (q_description req) ''Wallet top-up'')
             (stringify_metadata (q_metadata req)) of
        Inl err \<Rightarrow> (Inl err, c1)
      | Inr c2 \<Rightarrow>
     (case postDoubleEntry c2 txId
             (case treasuryLocked of Some t \<Rightarrow> t | None \<Rightarrow> treasury)
             userAccount (q_amount req) (a_asset_type_id userAccount) of
        (Inl err, c3) \<Rightarrow> (Inl err, c3)
      | (Inr (debitNewBalance, creditNewBalance), c3) \<Rightarrow>
     (let result =
            \<lparr>r_transactionId = txId, r_referenceId = q_referenceId req, r_type = TOP_UP,
             r_accountId = q_accountId req, r_amount = q_amount req,
             r_balanceAfter = creditNewBalance,
             r_description = or_default (q_description req) ''Wallet top-up'',
             r_createdAt = new_Date e, r_idempotent = False\<rparr>
      in (Inr result, storeIdempotencyResult c3 (q_referenceId req) 201 result))))))))))"

definition issueBonus_body :: "env \<Rightarrow> request \<Rightarrow> store \<Rightarrow> (js_error + response) \<times> store" where
  "issueBonus_body e req c =
     (case checkIdempotency c (q_referenceId req) of
        Some cached \<Rightarrow> (Inr ((ik_response_body cached)\<lparr>r_idempotent := True\<rparr>), c)
      | None \<Rightarrow>
     (case getAccountByExternalId c ''SYSTEM_BONUS_GOLD'' of
        None \<Rightarrow> (Inl not_configured, c)
      | Some bonusPool \<Rightarrow>
     (case getAccountsWithLock c [q_accountId req, a_id bonusPool] of (accs, c1) \<Rightarrow>
     (case find (\<lambda>a. a_id a = q_accountId req) accs of
        None \<Rightarrow> (Inl account_not_found, c1)
      | Some userAccount \<Rightarrow>
     (let bonusPoolLocked = find (\<lambda>a. a_id a = a_id bonusPool) accs;
          txId = uuidv4 e
      in
     (case insert_transaction c1 txId BONUS (q_referenceId req)
             (or_default (q_description req) ''Bonus issued'')
             (stringify_metadata (q_metadata req)) of
        Inl err \<Rightarrow> (Inl err, c1)
      | Inr c2 \<Rightarrow>
     (case postDoubleEntry c2 txId
             (case bonusPoolLocked of Some t \<Rightarrow> t | None \<Rightarrow> bonusPool)
             userAccount (q_amount req) (a_asset_type_id userAccount) of
        (Inl err, c3) \<Rightarrow> (Inl err, c3)
      | (Inr (debitNewBalance, creditNewBalance), c3) \<Rightarrow>
     (let result =
            \<lparr>r_transactionId = txId, r_referenceId = q_referenceId req, r_type = BONUS,
             r_accountId = q_accountId req, r_amount = q_amount req,
             r_balanceAfter = creditNewBalance,
             r_description = or_default (q_description req) ''Bonus issued'',
             r_createdAt = new_Date e, r_idempotent = False\<rparr>
      in (Inr result, storeIdempotencyResult c3 (q_referenceId req) 201 result)))))))))"

definition spendCredits_body :: "env \<Rightarrow> request \<Rightarrow> store \<Rightarrow> (js_error + response) \<times> store" where
  "spendCredits_body e req c =
     (case checkIdempotency c (q_referenceId req) of
        Some cached \<Rightarrow> (Inr ((ik_response_body cached)\<lparr>r_idempotent := True\<rparr>), c)
      | None \<Rightarrow>
     (case getAccountByExternalId c ''SYSTEM_REVENUE_GOLD'' of
        None \<Rightarrow> (Inl not_configured, c)
      | Some revenue \<Rightarrow>
     (case getAccountsWithLock c [q_accountId req, a_id revenue] of (accs, c1) \<Rightarrow>
     (case find (\<lambda>a. a_id a = q_accountId req) accs of
        None \<Rightarrow> (Inl account_not_found, c1)
      | Some userAccount \<Rightarrow>
     (if parseFloat (a_balance userAccount) < q_amount req
      then (Inl insufficient_balance, c1)
      else
     (let revenueLocked = find (\<lambda>a. a_id a = a_id revenue) accs;
          txId = uuidv4 e
      in
     (case insert_transaction c1 txId SPEND (q_referenceId req)
             (or_default (q_description req) ''Credit spend'')
             (stringify_metadata (q_metadata req)) of
        Inl err \<Rightarrow> (Inl err, c1)
      | Inr c2 \<Rightarrow>
     (case postDoubleEntry c2 txId userAccount
             (case revenueLocked of Some t \<Rightarrow> t | None \<Rightarrow> revenue)
             (q_amount req) (a_asset_type_id userAccount) of
        (Inl err, c3) \<Rightarrow> (Inl err, c3)
      | (Inr (debitNewBalance, creditNewBalance), c3) \<Rightarrow>
     (let result =
            \<lparr>r_transactionId = txId, r_referenceId = q_referenceId req, r_type = SPEND,
             r_accountId = q_accountId req, r_amount = q_amount req,
             r_balanceAfter = debitNewBalance,
             r_description = or_default (q_description req) ''Credit spend'',
             r_createdAt = new_Date e, r_idempotent = False\<rparr>
      in (Inr result, storeIdempotencyResult c3 (q_referenceId req) 201 result))))))))))"

section \<open>Persistence gateway\<close>

text \<open>
  What a call of \<open>withTransaction\<close> does to the connection, in order, and how it ends.
  \<open>fn k c\<close> is the \<open>k\<close>-th execution of the body (counted from 0) on the store \<open>c\<close>,
  the commit included: it yields the body's value or the error thrown, and the store as the
  body left it. \<open>random k\<close> is the value of \<open>Math.random()\<close> drawn before the \<open>k\<close>-th
  execution. A rollback restores the store the transaction began with; a commit keeps the
  body's store and releases its locks.
\<close>

datatype event = BEGIN | COMMIT | ROLLBACK | SLEEP rat | RELEASE

datatype 'a completion = Returned 'a | Threw js_error | Undefined

definition isRetryable :: "js_error \<Rightarrow> bool" where
  "isRetryable err = (code err = Some ''40001'' \<or> code err = Some ''40P01'')"

function withTransaction_loop ::
  "(nat \<Rightarrow> store \<Rightarrow> (js_error + 'a) \<times> store) \<Rightarrow> int \<Rightarrow> (nat \<Rightarrow> rat) \<Rightarrow> int \<Rightarrow> store \<Rightarrow>
     event list \<Rightarrow> 'a completion \<times> store \<times> event list" where
  "withTransaction_loop fn maxRetries random attempt c trace =
     (if attempt < maxRetries then
        (case fn (nat attempt) c of
           (Inr result, c') \<Rightarrow> (Returned result, c'\<lparr>locks := []\<rparr>, trace @ [BEGIN, COMMIT, RELEASE])
         | (Inl err, c') \<Rightarrow>
             (let retryable = isRetryable err
              in if retryable \<and> attempt < maxRetries - 1 then
                   (let attempt' = attempt + 1;
                        delay = min (50 * 2 ^ nat attempt' + random (nat attempt') * 50) 2000
                    in withTransaction_loop fn maxRetries random attempt' c
                         (trace @ [BEGIN, ROLLBACK, SLEEP delay, RELEASE]))
                 else (Threw err, c, trace @ [BEGIN, ROLLBACK, RELEASE])))
      else (Undefined, c, trace))"
  by pat_completeness auto
termination
  by (relation "measure (\<lambda>(fn, maxRetries, random, attempt, c, trace). nat (maxRetries - attempt))") auto

definition withTransaction ::
  "(nat \<Rightarrow> store \<Rightarrow> (js_error + 'a) \<times> store) \<Rightarrow> int \<Rightarrow> (nat \<Rightarrow> rat) \<Rightarrow> store \<Rightarrow>
     'a completion \<times> store \<times> event list" where
  "withTransaction fn maxRetries random c = withTransaction_loop fn maxRetries random 0 c []"

text \<open>The three flows run their bodies in the wrapper with its default of 3.\<close>

definition topUpWallet ::
  "(nat \<Rightarrow> env) \<Rightarrow> (nat \<Rightarrow> rat) \<Rightarrow> request \<Rightarrow> store \<Rightarrow> response completion \<times> store \<times> event list" where
  "topUpWallet e random req c = withTransaction (\<lambda>k. topUpWallet_body (e k) req) 3 random c"

definition issueBonus ::
  "(nat \<Rightarrow> env) \<Rightarrow> (nat \<Rightarrow> rat) \<Rightarrow> request \<Rightarrow> store \<Rightarrow> response completion \<times> store \<times> event list" where
  "issueBonus e random req c = withTransaction (\<lambda>k. issueBonus_body (e k) req) 3 random c"

definition spendCredits ::
  "(nat \<Rightarrow> env) \<Rightarrow> (nat \<Rightarrow> rat) \<Rightarrow> request \<Rightarrow> store \<Rightarrow> response completion \<times> store \<times> event list" where
  "spendCredits e random req c = withTransaction (\<lambda>k. spendCredits_body (e k) req) 3 random c"

text \<open>
  The trace of \<open>k\<close> failed executions that are each followed by a retry, the first of
  them being execution number \<open>a\<close>: before re-execution number \<open>j\<close> the wrapper sleeps
  \<open>min(50 * 2^j + 50 * random, 2000)\<close> milliseconds, holding the connection.
\<close>

definition retry_rounds :: "(nat \<Rightarrow> rat) \<Rightarrow> nat \<Rightarrow> nat \<Rightarrow> event list" where
  "retry_rounds random a k =
     concat (map (\<lambda>j. [BEGIN, ROLLBACK,
                         SLEEP (min (50 * 2 ^ Suc j + random (Suc j) * 50) 2000), RELEASE])
                 [a ..< a + k])"

definition serialization_failure :: js_error where
  "serialization_failure = \<lparr>code = Some ''40001'', statusCode = None\<rparr>"

definition deadlock_detected :: js_error where
  "deadlock_detected = \<lparr>code = Some ''40P01'', statusCode = None\<rparr>"

section \<open>Query surface\<close>

subsection \<open>History\<close>


















subsection \<open>Audit\<close>






section \<open>The seeded store\<close>

text \<open>
  The rows of \<open>migrations/002_seed.sql\<close>, read at time 1000: three asset types, five
  system accounts, the users Alice, Bob (gold coins) and Charlie (diamonds) with their
  opening postings.
\<close>

definition GOLD :: uuid where "GOLD = ''a1000000-0000-0000-0000-000000000001''"
definition DIAMONDS :: uuid where "DIAMONDS = ''a1000000-0000-0000-0000-000000000002''"
definition LOYALTY :: uuid where "LOYALTY = ''a1000000-0000-0000-0000-000000000003''"

definition TREASURY_GOLD :: uuid where "TREASURY_GOLD = ''b1000000-0000-0000-0000-000000000001''"
definition TREASURY_DIAMONDS :: uuid where "TREASURY_DIAMONDS = ''b1000000-0000-0000-0000-000000000002''"
definition TREASURY_LOYALTY :: uuid where "TREASURY_LOYALTY = ''b1000000-0000-0000-0000-000000000003''"
definition REVENUE_GOLD :: uuid where "REVENUE_GOLD = ''b1000000-0000-0000-0000-000000000004''"
definition BONUS_GOLD :: uuid where "BONUS_GOLD = ''b1000000-0000-0000-0000-000000000005''"

definition alice :: uuid where "alice = ''c1000000-0000-0000-0000-000000000001''"
definition bob :: uuid where "bob = ''c1000000-0000-0000-0000-000000000002''"
definition charlie :: uuid where "charlie = ''c1000000-0000-0000-0000-000000000003''"

definition seed_account :: "uuid \<Rightarrow> string \<Rightarrow> account_type \<Rightarrow> string \<Rightarrow> uuid \<Rightarrow> account_row" where
  "seed_account i ext ty nm asset =
     \<lparr>acc_id = i, acc_external_id = Some ext, acc_account_type = ty, acc_name = nm,
      acc_asset_type_id = asset, acc_is_active = True\<rparr>"

definition seed_balance :: "uuid \<Rightarrow> numeric \<Rightarrow> balance_row" where
  "seed_balance asset b =
     \<lparr>ab_asset_type_id = asset, ab_balance = b, ab_version = 0, ab_updated_at = 0\<rparr>"

definition seed_transaction :: "uuid \<Rightarrow> string \<Rightarrow> string \<Rightarrow> transaction_row" where
  "seed_transaction i ref descr =
     \<lparr>t_id = i, t_type = BONUS, t_reference_id = ref, t_description = descr,
      t_metadata = ''{}'', t_created_at = 0\<rparr>"

definition seed_entry :: "uuid \<Rightarrow> uuid \<Rightarrow> uuid \<Rightarrow> numeric \<Rightarrow> numeric \<Rightarrow> ledger_row" where
  "seed_entry tx acct asset amt after =
     \<lparr>le_transaction_id = tx, le_account_id = acct, le_asset_type_id = asset,
      le_amount = amt, le_balance_after = after\<rparr>"

definition seed :: store where
  "seed =
     \<lparr>accounts =
        [seed_account TREASURY_GOLD ''SYSTEM_TREASURY_GOLD'' SYSTEM ''Gold Coins Treasury'' GOLD,
         seed_account TREASURY_DIAMONDS ''SYSTEM_TREASURY_DIAMONDS'' SYSTEM ''Diamonds Treasury'' DIAMONDS,
         seed_account TREASURY_LOYALTY ''SYSTEM_TREASURY_LOYALTY'' SYSTEM ''Loyalty Points Treasury'' LOYALTY,
         seed_account REVENUE_GOLD ''SYSTEM_REVENUE_GOLD'' SYSTEM ''Gold Coins Revenue'' GOLD,
         seed_account BONUS_GOLD ''SYSTEM_BONUS_GOLD'' SYSTEM ''Gold Coins Bonus Pool'' GOLD,
         seed_account alice ''user_alice'' USER ''Alice'' GOLD,
         seed_account bob ''user_bob'' USER ''Bob'' GOLD,
         seed_account charlie ''user_charlie'' USER ''Charlie'' DIAMONDS],
      account_balances =
        [TREASURY_GOLD \<mapsto> seed_balance GOLD 0,
         TREASURY_DIAMONDS \<mapsto> seed_balance DIAMONDS 0,
         TREASURY_LOYALTY \<mapsto> seed_balance LOYALTY 0,
         REVENUE_GOLD \<mapsto> seed_balance GOLD 0,
         BONUS_GOLD \<mapsto> seed_balance GOLD 0,
         alice \<mapsto> seed_balance GOLD 500,
         bob \<mapsto> seed_balance GOLD 200,
         charlie \<mapsto> seed_balance DIAMONDS 150],
      transactions =
        [seed_transaction ''d1000000-0000-0000-0000-000000000001'' ''SEED_OPENING_ALICE_GOLD''
           ''Opening balance for Alice'',
         seed_transaction ''d1000000-0000-0000-0000-000000000002'' ''SEED_OPENING_BOB_GOLD''
           ''Opening balance for Bob'',
         seed_transaction ''d1000000-0000-0000-0000-000000000003'' ''SEED_OPENING_CHARLIE_DIAMONDS''
           ''Opening balance for Charlie''],
      ledger_entries =
        [seed_entry ''d1000000-0000-0000-0000-000000000001'' TREASURY_GOLD GOLD 500 (- 500),
         seed_entry ''d1000000-0000-0000-0000-000000000001'' alice GOLD (- 500) 500,
         seed_entry ''d1000000-0000-0000-0000-000000000002'' TREASURY_GOLD GOLD 200 (- 700),
         seed_entry ''d1000000-0000-0000-0000-000000000002'' bob GOLD (- 200) 200,
         seed_entry ''d1000000-0000-0000-0000-000000000003'' TREASURY_DIAMONDS DIAMONDS 150 (- 150),
         seed_entry ''d1000000-0000-0000-0000-000000000003'' charlie DIAMONDS (- 150) 150],
      idempotency_keys = Map.empty,
      now = 1000,
      locks = []\<rparr>"

text \<open>The row that locking the single account \<open>i\<close> returns (for an account that is there).\<close>

definition locked :: "store \<Rightarrow> uuid \<Rightarrow> account" where
  "locked c i = hd (fst (getAccountsWithLock c [i]))"

text \<open>
  Two bodies for the wrapper: one whose first execution meets a serialization failure and
  whose later executions return their number, one that meets a serialization failure
  every time.
\<close>

definition flaky :: "nat \<Rightarrow> store \<Rightarrow> (js_error + nat) \<times> store" where
  "flaky k c = (if k = 0 then (Inl serialization_failure, c) else (Inr k, c))"

definition always_conflict :: "nat \<Rightarrow> store \<Rightarrow> (js_error + unit) \<times> store" where
  "always_conflict k c = (Inl serialization_failure, c)"




text \<open>Inputs of the flows: a request without description and metadata, and an environment.\<close>

definition request_of :: "uuid \<Rightarrow> rat \<Rightarrow> string \<Rightarrow> request" where
  "request_of account_id amt ref =
     \<lparr>q_accountId = account_id, q_amount = amt, q_referenceId = ref,
      q_description = None, q_metadata = None\<rparr>"

definition env1 :: env where
  "env1 = \<lparr>uuidv4 = ''e1000000-0000-4000-8000-000000000001'', new_Date = 1001\<rparr>"

definition env2 :: env where
  "env2 = \<lparr>uuidv4 = ''e1000000-0000-4000-8000-000000000002'', new_Date = 2002\<rparr>"

text \<open>
  The response of the top-up of 100 for Alice with reference r1, and the seeded store with a
  record of that response under r1, written at time 1000.
\<close>

definition top_up_response :: response where
  "top_up_response =
     \<lparr>r_transactionId = ''e1000000-0000-4000-8000-000000000001'', r_referenceId = ''r1'',
      r_type = TOP_UP, r_accountId = alice, r_amount = 100, r_balanceAfter = 600,
      r_description = ''Wallet top-up'', r_createdAt = 1001, r_idempotent = False\<rparr>"

definition seed_with_key :: store where
  "seed_with_key =
     seed\<lparr>idempotency_keys :=
            [''r1'' \<mapsto> \<lparr>ik_response_status = 201, ik_response_body = top_up_response,
                         ik_created_at = 1000, ik_expires_at = 86401000\<rparr>]\<rparr>"

text \<open>The responses of a bonus of 25 and of a spend of 10 for Charlie on the seeded store.\<close>

definition bonus_response :: response where
  "bonus_response =
     \<lparr>r_transactionId = ''e1000000-0000-4000-8000-000000000001'', r_referenceId = ''r2'',
      r_type = BONUS, r_accountId = charlie, r_amount = 25, r_balanceAfter = 175,
      r_description = ''Bonus issued'', r_createdAt = 1001, r_idempotent = False\<rparr>"

definition spend_response :: response where
  "spend_response =
     \<lparr>r_transactionId = ''e1000000-0000-4000-8000-000000000001'', r_referenceId = ''r7'',
      r_type = SPEND, r_accountId = charlie, r_amount = 10, r_balanceAfter = 140,
      r_description = ''Credit spend'', r_createdAt = 1001, r_idempotent = False\<rparr>"

section \<open>Facts about the seeded store\<close>

lemmas seed_ids = GOLD_def DIAMONDS_def LOYALTY_def TREASURY_GOLD_def TREASURY_DIAMONDS_def
  TREASURY_LOYALTY_def REVENUE_GOLD_def BONUS_GOLD_def alice_def bob_def charlie_def

lemmas seed_defs = seed_def seed_account_def seed_balance_def seed_transaction_def seed_entry_def
  seed_ids

lemmas resolver_defs = getAccountByExternalId_def getAccountsWithLock_def new_Set_def
  select_accounts_def first_row_def join_balance_def Let_def

lemmas flow_eval_defs = checkIdempotency_def resolver_defs insert_transaction_def or_default_def stringify_metadata_def
  postDoubleEntry_def parseFloat_def insert_ledger_entry_def update_balance_def
  storeIdempotencyResult_def case_prod_unfold request_of_def env1_def env2_def seed_defs






lemma seed_locks: "seed\<lparr>locks := []\<rparr> = seed"
  by (simp add: seed_def)









lemma seed_asset_types:
  "map_option a_asset_type_id (getAccountByExternalId seed ''SYSTEM_BONUS_GOLD'') = Some GOLD"
  "map_option a_asset_type_id (getAccountByExternalId seed ''SYSTEM_REVENUE_GOLD'') = Some GOLD"
  "a_asset_type_id (locked seed charlie) = DIAMONDS"
  "GOLD \<noteq> DIAMONDS"
  by (simp_all add: locked_def resolver_defs seed_defs)

lemma seed_with_key_live:
  "idempotency_keys seed_with_key (q_referenceId (request_of bob 5 ''r1'')) =
     Some \<lparr>ik_response_status = 201, ik_response_body = top_up_response,
           ik_created_at = 1000, ik_expires_at = 86401000\<rparr>"
  "now seed_with_key = 1000"
  by (simp_all add: seed_with_key_def request_of_def seed_def)

section \<open>Account resolver: the rows that are locked\<close>



lemma a_id_join [simp]: "a_id (join_balance v a b) = acc_id a"
  by (simp add: join_balance_def)

lemma a_is_active_join [simp]: "a_is_active (join_balance v a b) = acc_is_active a"
  by (simp add: join_balance_def)

lemma a_balance_join [simp]: "a_balance (join_balance v a b) = ab_balance b"
  by (simp add: join_balance_def)

lemma a_account_type_join [simp]: "a_account_type (join_balance v a b) = acc_account_type a"
  by (simp add: join_balance_def)

lemma a_asset_type_id_join [simp]: "a_asset_type_id (join_balance v a b) = acc_asset_type_id a"
  by (simp add: join_balance_def)













lemma locked_frame:
  "accounts (snd (getAccountsWithLock c ids)) = accounts c"
  "account_balances (snd (getAccountsWithLock c ids)) = account_balances c"
  "transactions (snd (getAccountsWithLock c ids)) = transactions c"
  "ledger_entries (snd (getAccountsWithLock c ids)) = ledger_entries c"
  "idempotency_keys (snd (getAccountsWithLock c ids)) = idempotency_keys c"
  "now (snd (getAccountsWithLock c ids)) = now c"
  by (simp_all add: getAccountsWithLock_def Let_def)

section \<open>Effects of the posting engine and of the inserts\<close>

lemma update_balance_frame:
  "accounts (update_balance c i b) = accounts c"
  "transactions (update_balance c i b) = transactions c"
  "ledger_entries (update_balance c i b) = ledger_entries c"
  "idempotency_keys (update_balance c i b) = idempotency_keys c"
  "now (update_balance c i b) = now c"
  "locks (update_balance c i b) = locks c"
  by (simp_all add: update_balance_def split: option.splits)

lemma postDoubleEntry_frame:
  "accounts (snd (postDoubleEntry c tx D C m asset)) = accounts c"
  "transactions (snd (postDoubleEntry c tx D C m asset)) = transactions c"
  "idempotency_keys (snd (postDoubleEntry c tx D C m asset)) = idempotency_keys c"
  "now (snd (postDoubleEntry c tx D C m asset)) = now c"
  "locks (snd (postDoubleEntry c tx D C m asset)) = locks c"
  by (simp_all add: postDoubleEntry_def Let_def update_balance_frame insert_ledger_entry_def)



lemma postDoubleEntry_fst_error:
  "fst (postDoubleEntry c tx D C m asset) = Inl err \<Longrightarrow> err = insufficient_balance"
  by (auto simp: postDoubleEntry_def Let_def split: if_splits)

lemma insert_transaction_error:
  "insert_transaction c i ty ref d m = Inl err \<Longrightarrow> err = unique_violation"
  by (simp add: insert_transaction_def split: if_splits)

lemma insert_transaction_keys_now:
  "insert_transaction c i ty ref d m = Inr c2 \<Longrightarrow>
     idempotency_keys c2 = idempotency_keys c \<and> now c2 = now c"
  by (auto simp: insert_transaction_def split: if_splits)


lemma store_result_fresh:
  "idempotency_keys c ref = None \<Longrightarrow>
   idempotency_keys (storeIdempotencyResult c ref st body) ref =
     Some \<lparr>ik_response_status = st, ik_response_body = body, ik_created_at = now c,
           ik_expires_at = now c + 86400000\<rparr>"
  by (simp add: storeIdempotencyResult_def)

lemma store_result_now: "now (storeIdempotencyResult c ref st body) = now c"
  by (simp add: storeIdempotencyResult_def split: option.splits)


lemma no_key_miss: "idempotency_keys c ref = None \<Longrightarrow> checkIdempotency c ref = None"
  by (simp add: checkIdempotency_def)

lemma live_key_hit:
  "idempotency_keys c ref = Some cached \<Longrightarrow> now c < ik_expires_at cached \<Longrightarrow>
   checkIdempotency c ref = Some cached"
  by (simp add: checkIdempotency_def)


section \<open>Persistence gateway: one round after the other\<close>

declare withTransaction_loop.simps [simp del]

lemma retry_rounds_0: "retry_rounds random a 0 = []"
  by (simp add: retry_rounds_def)

lemma retry_rounds_Suc:
  "retry_rounds random a (Suc k) =
     [BEGIN, ROLLBACK, SLEEP (min (50 * 2 ^ Suc a + random (Suc a) * 50) 2000), RELEASE]
     @ retry_rounds random (Suc a) k"
  by (simp add: retry_rounds_def upt_rec)

text \<open>
  The loop from execution \<open>a\<close> on, when the next \<open>k\<close> executions each throw a retryable
  error and execution \<open>a + k\<close> returns, throws another error, or is the last one allowed.
\<close>

lemma withTransaction_loop_rounds:
  assumes "int a + int k < N"
      and "\<forall>j<k. \<exists>e s. fn (a + j) c = (Inl e, s) \<and> isRetryable e"
      and "case fn (a + k) c of (Inr r, s) \<Rightarrow> True
           | (Inl e, s) \<Rightarrow> \<not> isRetryable e \<or> int a + int k = N - 1"
  shows "withTransaction_loop fn N random (int a) c tr =
     (case fn (a + k) c of
        (Inr r, s) \<Rightarrow>
          (Returned r, s\<lparr>locks := []\<rparr>, tr @ retry_rounds random a k @ [BEGIN, COMMIT, RELEASE])
      | (Inl e, s) \<Rightarrow> (Threw e, c, tr @ retry_rounds random a k @ [BEGIN, ROLLBACK, RELEASE]))"
  using assms
proof (induction k arbitrary: a tr)
  case 0
  then show ?case
    by (subst withTransaction_loop.simps)
       (auto simp: retry_rounds_0 Let_def split: prod.splits sum.splits)
next
  case (Suc k)
  from Suc.prems(2) obtain e s where e: "fn a c = (Inl e, s)" "isRetryable e"
    by (metis add.right_neutral zero_less_Suc)
  have lt: "int a < N - 1" using Suc.prems(1) by simp
  let ?pause = "[BEGIN, ROLLBACK, SLEEP (min (50 * 2 ^ Suc a + random (Suc a) * 50) 2000), RELEASE]"
  have step: "withTransaction_loop fn N random (int a) c tr =
      withTransaction_loop fn N random (int (Suc a)) c (tr @ ?pause)"
    using e lt
    by (subst withTransaction_loop.simps) (simp add: Let_def nat_add_distrib add.commute)
  have p1: "int (Suc a) + int k < N" using Suc.prems(1) by simp
  have p2: "\<forall>j<k. \<exists>e s. fn (Suc a + j) c = (Inl e, s) \<and> isRetryable e"
  proof (intro allI impI)
    fix j assume "j < k"
    then have "Suc j < Suc k" by simp
    with Suc.prems(2) have "\<exists>e s. fn (a + Suc j) c = (Inl e, s) \<and> isRetryable e" by blast
    then show "\<exists>e s. fn (Suc a + j) c = (Inl e, s) \<and> isRetryable e" by simp
  qed
  have p3: "case fn (Suc a + k) c of (Inr r, s) \<Rightarrow> True
           | (Inl e, s) \<Rightarrow> \<not> isRetryable e \<or> int (Suc a) + int k = N - 1"
    using Suc.prems(3) by (auto split: prod.splits sum.splits)
  show ?case
    unfolding step
    using Suc.IH [OF p1 p2 p3, of "tr @ ?pause"]
    by (simp add: retry_rounds_Suc split: prod.splits sum.splits)
qed

text \<open>What the flows need: with the default of 3, a body that returns, or throws an
  error that is not retryable, runs once.\<close>

lemma withTransaction_returns:
  "fn 0 c = (Inr r, s) \<Longrightarrow>
   withTransaction fn 3 random c = (Returned r, s\<lparr>locks := []\<rparr>, [BEGIN, COMMIT, RELEASE])"
  unfolding withTransaction_def
  by (subst withTransaction_loop.simps) simp

lemma withTransaction_throws:
  "fn 0 c = (Inl err, s) \<Longrightarrow> \<not> isRetryable err \<Longrightarrow>
   withTransaction fn 3 random c = (Threw err, c, [BEGIN, ROLLBACK, RELEASE])"
  unfolding withTransaction_def
  by (subst withTransaction_loop.simps) simp

lemma withTransaction_returned:
  assumes "withTransaction fn 3 random c = (Returned r, c', tr)"
      and "\<And>err s. fn 0 c = (Inl err, s) \<Longrightarrow> \<not> isRetryable err"
  shows "\<exists>s. fn 0 c = (Inr r, s) \<and> c' = s\<lparr>locks := []\<rparr> \<and> tr = [BEGIN, COMMIT, RELEASE]"
proof (cases "fn 0 c")
  case (Pair res s)
  show ?thesis
  proof (cases res)
    case (Inl err)
    with Pair assms(2) have "\<not> isRetryable err" by blast
    from withTransaction_throws [OF _ this, of fn c s random] Pair Inl assms(1)
    show ?thesis by simp
  next
    case (Inr v)
    from withTransaction_returns [of fn c v s random] Pair Inr assms(1)
    show ?thesis by simp
  qed
qed

section \<open>Flow handlers: first steps and errors\<close>

lemma flow_hit:
  assumes "checkIdempotency c (q_referenceId req) = Some cached"
  shows "topUpWallet_body e req c = (Inr ((ik_response_body cached)\<lparr>r_idempotent := True\<rparr>), c)"
    and "issueBonus_body e req c = (Inr ((ik_response_body cached)\<lparr>r_idempotent := True\<rparr>), c)"
    and "spendCredits_body e req c = (Inr ((ik_response_body cached)\<lparr>r_idempotent := True\<rparr>), c)"
  using assms
  by (simp_all add: topUpWallet_body_def issueBonus_body_def spendCredits_body_def)


lemma not_retryable:
  "\<not> isRetryable account_not_found" "\<not> isRetryable insufficient_balance"
  "\<not> isRetryable not_configured" "\<not> isRetryable asset_type_mismatch"
  "\<not> isRetryable unique_violation"
  by (simp_all add: isRetryable_def account_not_found_def insufficient_balance_def
        not_configured_def asset_type_mismatch_def unique_violation_def)

lemma flow_errors:
  "topUpWallet_body e req c = (Inl err, s) \<Longrightarrow> \<not> isRetryable err"
  "issueBonus_body e req c = (Inl err, s) \<Longrightarrow> \<not> isRetryable err"
  "spendCredits_body e req c = (Inl err, s) \<Longrightarrow> \<not> isRetryable err"
  by (auto simp: topUpWallet_body_def issueBonus_body_def spendCredits_body_def
        case_prod_unfold Let_def not_retryable
      split: option.splits if_splits sum.splits
      dest!: insert_transaction_error postDoubleEntry_fst_error)

lemma flow_fresh_stores:
  assumes "flow \<in> {topUpWallet_body, issueBonus_body, spendCredits_body}"
      and "idempotency_keys c (q_referenceId req) = None"
      and "flow e req c = (Inr r, c')"
  shows "idempotency_keys c' (q_referenceId req) =
           Some \<lparr>ik_response_status = 201, ik_response_body = r, ik_created_at = now c,
                 ik_expires_at = now c + 86400000\<rparr>
       \<and> now c' = now c \<and> r_idempotent r = False"
  using assms(1)
proof (elim insertE emptyE)
  assume "flow = topUpWallet_body"
  with assms(2,3) no_key_miss [OF assms(2)] show ?thesis
    by (auto simp: topUpWallet_body_def case_prod_unfold Let_def store_result_fresh
          store_result_now postDoubleEntry_frame locked_frame
        split: option.splits if_splits sum.splits dest!: insert_transaction_keys_now)
next
  assume "flow = issueBonus_body"
  with assms(2,3) no_key_miss [OF assms(2)] show ?thesis
    by (auto simp: issueBonus_body_def case_prod_unfold Let_def store_result_fresh
          store_result_now postDoubleEntry_frame locked_frame
        split: option.splits if_splits sum.splits dest!: insert_transaction_keys_now)
next
  assume "flow = spendCredits_body"
  with assms(2,3) no_key_miss [OF assms(2)] show ?thesis
    by (auto simp: spendCredits_body_def case_prod_unfold Let_def store_result_fresh
          store_result_now postDoubleEntry_frame locked_frame
        split: option.splits if_splits sum.splits dest!: insert_transaction_keys_now)
qed

section \<open>Flows and queries evaluated on the seeded store\<close>

lemma top_up_alice_eval:
  "fst (topUpWallet_body env1 (request_of alice 100 ''r1'') seed) = Inr top_up_response"
  by (simp add: topUpWallet_body_def flow_eval_defs top_up_response_def)

lemma bonus_charlie_eval:
  "fst (issueBonus_body env1 (request_of charlie 25 ''r2'') seed) = Inr bonus_response"
  by (simp add: issueBonus_body_def flow_eval_defs bonus_response_def)

lemma bonus_charlie_ledger:
  "ledger_entries (snd (issueBonus_body env1 (request_of charlie 25 ''r2'') seed)) =
     ledger_entries seed @
       [\<lparr>le_transaction_id = uuidv4 env1, le_account_id = BONUS_GOLD, le_asset_type_id = DIAMONDS,
         le_amount = 25, le_balance_after = - 25\<rparr>,
        \<lparr>le_transaction_id = uuidv4 env1, le_account_id = charlie, le_asset_type_id = DIAMONDS,
         le_amount = - 25, le_balance_after = 175\<rparr>]"
  by (simp add: issueBonus_body_def flow_eval_defs)

lemma spend_charlie_eval:
  "fst (spendCredits_body env1 (request_of charlie 10 ''r7'') seed) = Inr spend_response"
  by (simp add: spendCredits_body_def flow_eval_defs spend_response_def)

lemma top_up_charlie_eval:
  "fst (topUpWallet_body env1 (request_of charlie 100 ''r6'') seed) = Inl asset_type_mismatch"
  by (simp add: topUpWallet_body_def flow_eval_defs)


section \<open>History: validated parameters and the page\<close>












section \<open>Posting engine: the double entry\<close>




text \<open>
  The flows can make such a call: a top-up whose account is the gold treasury itself locks
  one row and posts from it to itself. The balance row of the treasury ends at 100 with
  its version raised by two, although the two journal entries cancel.
\<close>

lemma top_up_of_the_treasury:
  "map_option (\<lambda>row. (ab_balance row, ab_version row))
       (account_balances (snd (topUpWallet_body env1 (request_of TREASURY_GOLD 100 ''r9'') seed))
          TREASURY_GOLD) = Some (100, 2)"
  by (simp add: topUpWallet_body_def flow_eval_defs)

section \<open>Flow handlers: accounts of different asset types\<close>

text \<open>
  Claim C2 does not hold of the code. On the seeded store the bonus pool and the revenue
  account hold gold coins and Charlie's account holds diamonds. A bonus of 25 for Charlie
  is posted all the same: the flow returns a fresh response, and the journal gains a
  diamonds entry on the gold bonus pool. A spend of 10 by Charlie is posted as well. Only
  the top-up compares the asset types, and the error it throws carries status 400 but not
  the code \<open>ASSET_MISMATCH\<close>.
\<close>

theorem asset_mismatch_not_enforced:
  "map_option a_asset_type_id (getAccountByExternalId seed ''SYSTEM_BONUS_GOLD'') = Some GOLD
   \<and> map_option a_asset_type_id (getAccountByExternalId seed ''SYSTEM_REVENUE_GOLD'') = Some GOLD
   \<and> a_asset_type_id (locked seed charlie) = DIAMONDS
   \<and> GOLD \<noteq> DIAMONDS
   \<and> fst (issueBonus (\<lambda>k. env1) (\<lambda>k. 0) (request_of charlie 25 ''r2'') seed)
       = Returned bonus_response
   \<and> ledger_entries (fst (snd (issueBonus (\<lambda>k. env1) (\<lambda>k. 0) (request_of charlie 25 ''r2'') seed)))
       = ledger_entries seed @
          [\<lparr>le_transaction_id = uuidv4 env1, le_account_id = BONUS_GOLD,
            le_asset_type_id = DIAMONDS, le_amount = 25, le_balance_after = - 25\<rparr>,
           \<lparr>le_transaction_id = uuidv4 env1, le_account_id = charlie,
            le_asset_type_id = DIAMONDS, le_amount = - 25, le_balance_after = 175\<rparr>]
   \<and> fst (spendCredits (\<lambda>k. env1) (\<lambda>k. 0) (request_of charlie 10 ''r7'') seed)
       = Returned spend_response
   \<and> topUpWallet (\<lambda>k. env1) (\<lambda>k. 0) (request_of charlie 100 ''r6'') seed
       = (Threw asset_type_mismatch, seed, [BEGIN, ROLLBACK, RELEASE])
   \<and> code asset_type_mismatch \<noteq> Some ''ASSET_MISMATCH''"
proof -
  let ?b = "issueBonus_body env1 (request_of charlie 25 ''r2'') seed"
  let ?s = "spendCredits_body env1 (request_of charlie 10 ''r7'') seed"
  let ?t = "topUpWallet_body env1 (request_of charlie 100 ''r6'') seed"
  have b: "?b = (Inr bonus_response, snd ?b)"
    by (rule prod_eqI) (simp_all add: bonus_charlie_eval)
  have bonus: "issueBonus (\<lambda>k. env1) (\<lambda>k. 0) (request_of charlie 25 ''r2'') seed
                 = (Returned bonus_response, (snd ?b)\<lparr>locks := []\<rparr>, [BEGIN, COMMIT, RELEASE])"
    unfolding issueBonus_def by (rule withTransaction_returns) (rule b)
  have s: "?s = (Inr spend_response, snd ?s)"
    by (rule prod_eqI) (simp_all add: spend_charlie_eval)
  have spend: "spendCredits (\<lambda>k. env1) (\<lambda>k. 0) (request_of charlie 10 ''r7'') seed
                 = (Returned spend_response, (snd ?s)\<lparr>locks := []\<rparr>, [BEGIN, COMMIT, RELEASE])"
    unfolding spendCredits_def by (rule withTransaction_returns) (rule s)
  have t: "?t = (Inl asset_type_mismatch, snd ?t)"
    by (rule prod_eqI) (simp_all add: top_up_charlie_eval)
  have top: "topUpWallet (\<lambda>k. env1) (\<lambda>k. 0) (request_of charlie 100 ''r6'') seed
                 = (Threw asset_type_mismatch, seed, [BEGIN, ROLLBACK, RELEASE])"
    unfolding topUpWallet_def
    by (rule withTransaction_throws [where s = "snd ?t"]) (simp_all add: t [symmetric] not_retryable)
  have cd: "code asset_type_mismatch \<noteq> Some ''ASSET_MISMATCH''"
    by (simp add: asset_type_mismatch_def)
  show ?thesis
    unfolding bonus spend top fst_conv snd_conv
    using seed_asset_types bonus_charlie_ledger cd by simp
qed

section \<open>Spending: the balance check\<close>



section \<open>Idempotency: replay of a stored response\<close>

text \<open>
  Claim C4, for each of the three flows. If the store holds an unexpired idempotency record
  for the reference of the request, the body returns the stored response with
  \<open>idempotent\<close> set and leaves the store as it was: no lock, no transaction, no journal
  entry, no balance changed. And if a flow completes a request whose reference had no
  record, then any later request with that reference, made before the record expires
  (24 hours), is answered with that response with \<open>idempotent\<close> set, and the store is
  not changed by it.
\<close>

theorem idempotent_replay:
  assumes "flow \<in> {topUpWallet_body, issueBonus_body, spendCredits_body}"
  shows "(\<forall>c req e cached.
            idempotency_keys c (q_referenceId req) = Some cached \<and> now c < ik_expires_at cached
            \<longrightarrow> flow e req c = (Inr ((ik_response_body cached)\<lparr>r_idempotent := True\<rparr>), c))
       \<and> (\<forall>c req e random r c' tr t e' random' req'.
            idempotency_keys c (q_referenceId req) = None
            \<and> withTransaction (\<lambda>k. flow (e k) req) 3 random c = (Returned r, c', tr)
            \<and> q_referenceId req' = q_referenceId req \<and> t < now c + 86400000
            \<longrightarrow> withTransaction (\<lambda>k. flow (e' k) req') 3 random' (c'\<lparr>now := t\<rparr>)
                  = (Returned (r\<lparr>r_idempotent := True\<rparr>), c'\<lparr>now := t\<rparr>, [BEGIN, COMMIT, RELEASE]))"
proof (intro conjI allI impI)
  fix c :: store and req :: request and e :: env and cached :: idempotency_row
  assume "idempotency_keys c (q_referenceId req) = Some cached \<and> now c < ik_expires_at cached"
  then have "checkIdempotency c (q_referenceId req) = Some cached"
    by (simp add: live_key_hit)
  from flow_hit [OF this] assms
  show "flow e req c = (Inr ((ik_response_body cached)\<lparr>r_idempotent := True\<rparr>), c)"
    by auto
next
  fix c c' :: store and req req' :: request and e e' :: "nat \<Rightarrow> env"
    and random random' :: "nat \<Rightarrow> rat" and r :: response and tr :: "event list" and t :: nat
  assume a: "idempotency_keys c (q_referenceId req) = None
            \<and> withTransaction (\<lambda>k. flow (e k) req) 3 random c = (Returned r, c', tr)
            \<and> q_referenceId req' = q_referenceId req \<and> t < now c + 86400000"
  have nr: "\<not> isRetryable err" if "flow (e 0) req c = (Inl err, s)" for err s
    using that assms flow_errors by auto
  from withTransaction_returned [of "\<lambda>k. flow (e k) req" random c r c' tr] a nr
  obtain s where s: "flow (e 0) req c = (Inr r, s)" "c' = s\<lparr>locks := []\<rparr>"
    by blast
  from flow_fresh_stores [OF assms _ s(1)] a
  have key: "idempotency_keys s (q_referenceId req) =
           Some \<lparr>ik_response_status = 201, ik_response_body = r, ik_created_at = now c,
                 ik_expires_at = now c + 86400000\<rparr>"
    by simp
  let ?c = "c'\<lparr>now := t\<rparr>"
  have "checkIdempotency ?c (q_referenceId req') =
          Some \<lparr>ik_response_status = 201, ik_response_body = r, ik_created_at = now c,
                ik_expires_at = now c + 86400000\<rparr>"
    using key a s(2) by (simp add: checkIdempotency_def)
  from flow_hit [OF this] assms
  have "flow (e' 0) req' ?c = (Inr (r\<lparr>r_idempotent := True\<rparr>), ?c)"
    by auto
  from withTransaction_returns [of "\<lambda>k. flow (e' k) req'", OF this]
  show "withTransaction (\<lambda>k. flow (e' k) req') 3 random' ?c
          = (Returned (r\<lparr>r_idempotent := True\<rparr>), ?c, [BEGIN, COMMIT, RELEASE])"
    using s(2) by simp
qed

theorem idempotent_replay_witness:
  "topUpWallet_body env2 (request_of bob 5 ''r1'') seed_with_key
     = (Inr (top_up_response\<lparr>r_idempotent := True\<rparr>), seed_with_key)
   \<and> fst (topUpWallet (\<lambda>k. env1) (\<lambda>k. 0) (request_of alice 100 ''r1'') seed)
       = Returned top_up_response
   \<and> topUpWallet (\<lambda>k. env2) (\<lambda>k. 1 / 2) (request_of alice 100 ''r1'')
        ((fst (snd (topUpWallet (\<lambda>k. env1) (\<lambda>k. 0) (request_of alice 100 ''r1'') seed)))\<lparr>now := 5000\<rparr>)
       = (Returned (top_up_response\<lparr>r_idempotent := True\<rparr>),
          (fst (snd (topUpWallet (\<lambda>k. env1) (\<lambda>k. 0) (request_of alice 100 ''r1'') seed)))\<lparr>now := 5000\<rparr>,
          [BEGIN, COMMIT, RELEASE])"
proof -
  have fl: "topUpWallet_body \<in> {topUpWallet_body, issueBonus_body, spendCredits_body}"
    by simp
  note T = idempotent_replay [OF fl]
  let ?req = "request_of alice 100 ''r1''"
  let ?first = "topUpWallet (\<lambda>k. env1) (\<lambda>k. 0) ?req seed"
  have one: "topUpWallet_body env2 (request_of bob 5 ''r1'') seed_with_key
     = (Inr (top_up_response\<lparr>r_idempotent := True\<rparr>), seed_with_key)"
    using T [THEN conjunct1, rule_format, of seed_with_key "request_of bob 5 ''r1''" _ env2]
          seed_with_key_live
    by simp
  let ?c1 = "(snd (topUpWallet_body env1 ?req seed))\<lparr>locks := []\<rparr>"
  have body: "topUpWallet_body env1 ?req seed
                = (Inr top_up_response, snd (topUpWallet_body env1 ?req seed))"
    by (rule prod_eqI) (simp_all add: top_up_alice_eval)
  have run: "withTransaction (\<lambda>k. topUpWallet_body env1 ?req) 3 (\<lambda>k. 0) seed
               = (Returned top_up_response, ?c1, [BEGIN, COMMIT, RELEASE])"
    by (rule withTransaction_returns) (rule body)
  have first: "?first = (Returned top_up_response, ?c1, [BEGIN, COMMIT, RELEASE])"
    unfolding topUpWallet_def by (rule run)
  have nokey: "idempotency_keys seed (q_referenceId ?req) = None"
    by (simp add: seed_def)
  have tm: "(5000::nat) < now seed + 86400000"
    by (simp add: seed_def)
  have "withTransaction (\<lambda>k. topUpWallet_body env2 ?req) 3 (\<lambda>k. 1 / 2) (?c1\<lparr>now := 5000\<rparr>)
       = (Returned (top_up_response\<lparr>r_idempotent := True\<rparr>), ?c1\<lparr>now := 5000\<rparr>,
          [BEGIN, COMMIT, RELEASE])"
    using nokey run tm
    by (intro T [THEN conjunct2, rule_format,
                 of seed ?req "\<lambda>k. env1" "\<lambda>k. 0" top_up_response ?c1 "[BEGIN, COMMIT, RELEASE]"
                    ?req 5000 "\<lambda>k. env2" "\<lambda>k. 1 / 2"]) blast
  then have three: "topUpWallet (\<lambda>k. env2) (\<lambda>k. 1 / 2) ?req (?c1\<lparr>now := 5000\<rparr>)
       = (Returned (top_up_response\<lparr>r_idempotent := True\<rparr>), ?c1\<lparr>now := 5000\<rparr>,
          [BEGIN, COMMIT, RELEASE])"
    unfolding topUpWallet_def .
  show ?thesis
    unfolding first fst_conv snd_conv
    using one three by blast
qed

section \<open>Account resolver: canonical lock order\<close>



section \<open>Persistence gateway: retries\<close>

text \<open>
  Claim C6, with the count of the code. Let executions \<open>0, ..., k - 1\<close> of the body each
  throw an error with code 40001 or 40P01, and let execution \<open>k < N\<close> return, or throw an
  error with another code, or be execution \<open>N - 1\<close>. Then \<open>withTransaction\<close> executes the
  body \<open>k + 1 \<le> N\<close> times and no more: it sleeps \<open>min(50 * 2^j + 50 * random, 2000)\<close>
  milliseconds before re-execution \<open>j = 1, ..., k\<close>, and it ends with the value of execution
  \<open>k\<close> after a commit, or with the error of execution \<open>k\<close>, unchanged, after a rollback
  that restores the store.
\<close>

theorem withTransaction_retry:
  assumes "int k < N"
      and "\<forall>j<k. \<exists>err s. fn j c = (Inl err, s) \<and> code err \<in> {Some ''40001'', Some ''40P01''}"
      and "case fn k c of
             (Inr r, s) \<Rightarrow> True
           | (Inl err, s) \<Rightarrow> code err \<notin> {Some ''40001'', Some ''40P01''} \<or> int k = N - 1"
  shows "withTransaction fn N random c =
           (case fn k c of
              (Inr r, s) \<Rightarrow>
                (Returned r, s\<lparr>locks := []\<rparr>, retry_rounds random 0 k @ [BEGIN, COMMIT, RELEASE])
            | (Inl err, s) \<Rightarrow>
                (Threw err, c, retry_rounds random 0 k @ [BEGIN, ROLLBACK, RELEASE]))
       \<and> length (filter (\<lambda>ev. ev = BEGIN) (snd (snd (withTransaction fn N random c)))) = Suc k
       \<and> int (Suc k) \<le> N"
proof -
  have a: "int 0 + int k < N" using assms(1) by simp
  have b: "\<forall>j<k. \<exists>e s. fn (0 + j) c = (Inl e, s) \<and> isRetryable e"
    using assms(2) by (simp add: isRetryable_def)
  have d: "case fn (0 + k) c of (Inr r, s) \<Rightarrow> True
           | (Inl e, s) \<Rightarrow> \<not> isRetryable e \<or> int 0 + int k = N - 1"
    using assms(3) by (auto simp: isRetryable_def split: prod.splits sum.splits)
  have eq: "withTransaction fn N random c =
           (case fn k c of
              (Inr r, s) \<Rightarrow>
                (Returned r, s\<lparr>locks := []\<rparr>, retry_rounds random 0 k @ [BEGIN, COMMIT, RELEASE])
            | (Inl err, s) \<Rightarrow>
                (Threw err, c, retry_rounds random 0 k @ [BEGIN, ROLLBACK, RELEASE]))"
    using withTransaction_loop_rounds [of 0 k N fn c random "[]"] a b d
    by (simp add: withTransaction_def split: prod.splits sum.splits)
  have cnt: "length (filter (\<lambda>ev. ev = BEGIN) (retry_rounds random a k)) = k" for a
    by (induction k arbitrary: a) (simp_all add: retry_rounds_0 retry_rounds_Suc)
  have "length (filter (\<lambda>ev. ev = BEGIN) (snd (snd (withTransaction fn N random c)))) = Suc k"
    unfolding eq by (simp add: cnt split: prod.splits sum.splits)
  with eq assms(1) show ?thesis by simp
qed

theorem withTransaction_retry_witness:
  "withTransaction flaky 3 (\<lambda>k. 1 / 2) seed =
     (Returned 1, seed, [BEGIN, ROLLBACK, SLEEP 125, RELEASE, BEGIN, COMMIT, RELEASE])"
proof -
  have a: "int 1 < 3" by simp
  have b: "\<forall>j<1. \<exists>err s. flaky j seed = (Inl err, s) \<and> code err \<in> {Some ''40001'', Some ''40P01''}"
    by (simp add: flaky_def serialization_failure_def)
  have d: "case flaky 1 seed of (Inr r, s) \<Rightarrow> True
           | (Inl err, s) \<Rightarrow> code err \<notin> {Some ''40001'', Some ''40P01''} \<or> int 1 = 3 - 1"
    by (simp add: flaky_def)
  from withTransaction_retry [of 1 3 flaky seed "\<lambda>k. 1 / 2"] a b d show ?thesis
    by (simp add: flaky_def retry_rounds_def seed_locks)
qed

text \<open>
  With the default of 3 and a body that meets a serialization failure every time, the body
  is executed three times, that is re-executed twice; the third failure is thrown to the
  caller, although it is transient and fewer than three retries have been made.
\<close>

theorem withTransaction_budget_counterexample:
  "withTransaction always_conflict 3 (\<lambda>k. 0) seed =
     (Threw serialization_failure, seed,
      [BEGIN, ROLLBACK, SLEEP 100, RELEASE,
       BEGIN, ROLLBACK, SLEEP 200, RELEASE,
       BEGIN, ROLLBACK, RELEASE])"
  by (simp add: withTransaction_def withTransaction_loop.simps always_conflict_def
        isRetryable_def serialization_failure_def)

section \<open>Query surface: the page of the history\<close>



section \<open>Query surface: audit\<close>



section \<open>Query surface: the account check of the history\<close>



end
